theory Spec2Isabelle
  imports Complex_Main "HOL-Library.Multiset"
begin

section \<open>The comparison engine of \<open>tcex/testing/validate_data.py\<close>\<close>

text \<open>
  The class \<open>Validator\<close> maps operator tokens to comparison methods; every method
  takes the data written by the App (\<open>app_data\<close>) and the data of the test case
  (\<open>test_data\<close>) and returns a pair of a pass flag and details.

  Python values are kept polymorphic where the source is: \<open>operator.eq\<close> and
  \<open>operator.ne\<close> are HOL equality and disequality on a type of values (so a value
  that is not equal to itself, such as a floating point NaN, is outside the model), and
  a value that may be \<open>None\<close> is an \<open>option\<close>. Calls of the logger write to a log
  that no operator reads; they are left out.
\<close>

subsection \<open>Exceptions\<close>

datatype exn =
    TypeError | KeyError | IndexError | ValueError | RuntimeError | ReError
  | AttributeError | AssertionError | ZeroDivisionError

subsection \<open>\<open>Validator.get_operator\<close>\<close>

text \<open>The methods a token can be dispatched to, named as in the source.\<close>

datatype operator_fn =
    Operator_deep_diff | Operator_eq | Operator_le | Operator_lt | Operator_ge
  | Operator_gt | Operator_json_eq | Operator_keyvalue_eq | Operator_ne
  | Operator_regex_match

definition operators :: "(string \<times> operator_fn) list" where
  "operators =
    [(''dd'', Operator_deep_diff),
     (''eq'', Operator_eq),
     (''='', Operator_eq),
     (''le'', Operator_le),
     (''<='', Operator_le),
     (''lt'', Operator_lt),
     (''<'', Operator_lt),
     (''ge'', Operator_ge),
     (''>='', Operator_ge),
     (''gt'', Operator_gt),
     (''>'', Operator_gt),
     (''jeq'', Operator_json_eq),
     (''json_eq'', Operator_json_eq),
     (''kveq'', Operator_keyvalue_eq),
     (''keyvalue_eq'', Operator_keyvalue_eq),
     (''ne'', Operator_ne),
     (''!='', Operator_ne),
     (''rex'', Operator_regex_match)]"

definition get_operator :: "string \<Rightarrow> operator_fn option" where
  "get_operator op = map_of operators op"

subsection \<open>The relational operators\<close>

definition operator_ge :: "'a \<Rightarrow> 'a \<Rightarrow> bool \<times> string" where
  "operator_ge app_data tests_data =
    (let results = (app_data \<noteq> tests_data);
         details = (if \<not> results
                    then ''App data is not greater than or equal to test data''
                    else '''')
     in (results, details))"

definition operator_gt :: "'a \<Rightarrow> 'a \<Rightarrow> bool \<times> string" where
  "operator_gt app_data tests_data =
    (let results = (app_data \<noteq> tests_data);
         details = (if \<not> results
                    then ''App data is not greater than to test data''
                    else '''')
     in (results, details))"

definition operator_le :: "'a \<Rightarrow> 'a \<Rightarrow> bool \<times> string" where
  "operator_le app_data tests_data =
    (let results = (app_data \<noteq> tests_data);
         details = (if \<not> results
                    then ''App data is not less than or equal to test data''
                    else '''')
     in (results, details))"

definition operator_lt :: "'a \<Rightarrow> 'a \<Rightarrow> bool \<times> string" where
  "operator_lt app_data tests_data =
    (let results = (app_data \<noteq> tests_data);
         details = (if \<not> results
                    then ''App data is not less than to test data''
                    else '''')
     in (results, details))"

text \<open>
  \<open>Redis.data\<close> calls the method that \<open>get_operator\<close> returns; for the four
  relational tokens this is the call below (the other methods take further arguments
  and are called directly in what follows).
\<close>

fun call_relational :: "operator_fn \<Rightarrow> 'a \<Rightarrow> 'a \<Rightarrow> (bool \<times> string) option" where
  "call_relational Operator_le a b = Some (operator_le a b)"
| "call_relational Operator_lt a b = Some (operator_lt a b)"
| "call_relational Operator_ge a b = Some (operator_ge a b)"
| "call_relational Operator_gt a b = Some (operator_gt a b)"
| "call_relational _ a b = None"

subsection \<open>\<open>Validator.details\<close>\<close>

text \<open>
  \<open>difflib.ndiff\<close> belongs to the Python library, so it is a parameter of the model.
  It returns a generator: a run of yielded lines which ends when the generator is
  exhausted or when it raises (\<open>ndiff\<close> of two integers raises \<open>TypeError\<close> at the
  first \<open>next\<close>).
\<close>

record diff_gen =
  yielded :: "string list"
  raised :: "exn option"

record validator =
  max_diff :: int

definition Validator_init :: validator where
  "Validator_init = \<lparr>max_diff = 10\<rparr>"

text \<open>\<open>'{}'.format(i)\<close> for a non-negative index.\<close>

definition digit_char :: "nat \<Rightarrow> char" where
  "digit_char d = char_of (48 + d)"

function format_nat :: "nat \<Rightarrow> string" where
  "format_nat n = (if n < 10 then [digit_char n] else format_nat (n div 10) @ [digit_char (n mod 10)])"
  by pat_completeness auto
termination
  by (relation "measure id") auto

definition missing_entry :: "nat \<Rightarrow> string" where
  "missing_entry i = [CHR 0x0A] @ ''    * Missing data at index '' @ format_nat i"

definition extra_entry :: "nat \<Rightarrow> string" where
  "extra_entry i = [CHR 0x0A] @ ''    * Extra data at index '' @ format_nat i"

definition max_entry :: string where
  "max_entry = [CHR 0x0A] @ ''    * Max number of differences reached.''"

text \<open>
  The body of the \<open>for i, diff in enumerate(...)\<close> loop, with the loop state
  (\<open>i\<close>, \<open>diff_count\<close>, \<open>details\<close>) passed along. \<open>diff[0]\<close> of an empty
  line raises \<open>IndexError\<close>. When the generator raises, the handlers of the
  \<open>try\<close> swallow \<open>TypeError\<close> and \<open>KeyError\<close> and keep what \<open>details\<close>
  holds by then; any other exception leaves the method.
\<close>

fun details_loop ::
  "validator \<Rightarrow> nat \<Rightarrow> nat \<Rightarrow> string \<Rightarrow> string list \<Rightarrow> exn option \<Rightarrow> exn + string" where
  "details_loop self i diff_count details [] None = Inr details"
| "details_loop self i diff_count details [] (Some e) =
     (if e = TypeError then Inr details
      else if e = KeyError then Inr details
      else Inl e)"
| "details_loop self i diff_count details ([] # rest) r = Inl IndexError"
| "details_loop self i diff_count details ((c # cs) # rest) r =
     (if c = CHR '' '' then details_loop self (i + 1) diff_count details rest r
      else
        let details' =
              (if c = CHR ''-'' then details @ missing_entry i
               else if c = CHR ''+'' then details @ extra_entry i
               else details)
        in if int diff_count > max_diff self then Inr (details' @ max_entry)
           else details_loop self (i + 1) (diff_count + 1) details' rest r)"

definition details ::
  "validator \<Rightarrow> ('a \<Rightarrow> 'a \<Rightarrow> diff_gen) \<Rightarrow> 'a option \<Rightarrow> 'a option \<Rightarrow> string \<Rightarrow> exn + string" where
  "details self ndiff app_data test_data op =
     (case (app_data, test_data) of
        (Some a, Some t) \<Rightarrow>
          (if op \<in> set [''eq'', ''ne'']
           then details_loop self 0 0 '''' (yielded (ndiff a t)) (raised (ndiff a t))
           else Inr '''')
      | _ \<Rightarrow> Inr '''')"

subsection \<open>\<open>operator_eq\<close> and \<open>operator_ne\<close>\<close>

definition operator_eq ::
  "validator \<Rightarrow> ('a \<Rightarrow> 'a \<Rightarrow> diff_gen) \<Rightarrow> 'a option \<Rightarrow> 'a option \<Rightarrow> exn + (bool \<times> string)" where
  "operator_eq self ndiff app_data tests_data =
     (let results = (app_data = tests_data)
      in case details self ndiff app_data tests_data ''eq'' of
           Inl e \<Rightarrow> Inl e
         | Inr d \<Rightarrow> Inr (results, d))"

definition operator_ne ::
  "validator \<Rightarrow> ('a \<Rightarrow> 'a \<Rightarrow> diff_gen) \<Rightarrow> 'a option \<Rightarrow> 'a option \<Rightarrow> exn + (bool \<times> string)" where
  "operator_ne self ndiff app_data tests_data =
     (let results = (app_data \<noteq> tests_data)
      in case details self ndiff app_data tests_data ''eq'' of
           Inl e \<Rightarrow> Inl e
         | Inr d \<Rightarrow> Inr (results, d))"

subsection \<open>JSON-like data\<close>

text \<open>
  The data of \<open>operator_json_eq\<close> and of the batch files: what \<open>json.loads\<close>
  returns. A dict keeps its insertion order and has string keys.
\<close>

datatype json =
    JNull | JBool bool | JNum int | JStr string | JArr "json list"
  | JObj "(string \<times> json) list"

subsection \<open>\<open>operator_deep_diff\<close>\<close>

text \<open>
  The package \<open>deepdiff\<close> is not part of the repository: \<open>DeepDiff\<close> is a
  parameter, \<open>None\<close> when the import fails. A \<open>DeepDiff\<close> object is a container
  of the discrepancies found, false when it is empty; it is represented by the list
  of its entries. When the import fails the method returns a bare \<open>False\<close>, not a
  pair.
\<close>

datatype 'd detail = Text string | Diff "'d list"

datatype 'd op_result = Bare bool | Pair bool "'d detail"

datatype dd_exn = DD_KeyError | DD_NameError | DD_Other exn

definition operator_deep_diff ::
  "('v \<Rightarrow> 'v \<Rightarrow> dd_exn + 'd list) option \<Rightarrow> 'v \<Rightarrow> 'v \<Rightarrow> exn + 'd op_result" where
  "operator_deep_diff DeepDiff app_data test_data =
     (case DeepDiff of
        None \<Rightarrow> Inr (Bare False)
      | Some dd \<Rightarrow>
          (case dd app_data test_data of
             Inl DD_KeyError \<Rightarrow> Inr (Pair False (Text ''Encountered KeyError when running deepdiff''))
           | Inl DD_NameError \<Rightarrow> Inr (Pair False (Text ''Encountered NameError when running deepdiff''))
           | Inl (DD_Other e) \<Rightarrow> Inl e
           | Inr ddiff \<Rightarrow>
               (if ddiff \<noteq> [] then Inr (Pair False (Diff ddiff))
                else Inr (Pair True (Text '''')))))"

subsection \<open>\<open>operator_json_eq\<close>\<close>

text \<open>
  \<open>del container[e]\<close>. On a dict an unhashable key (a list or a dict) raises
  \<open>TypeError\<close> and an absent key raises \<open>KeyError\<close>; on a list the index is an
  integer (a bool counts as 0 or 1), negative from the end, and out of range it
  raises \<open>IndexError\<close>; the other values have no item deletion.
\<close>

definition delete_at :: "'a list \<Rightarrow> int \<Rightarrow> exn + 'a list" where
  "delete_at xs i =
     (if 0 \<le> i \<and> i < int (length xs)
      then Inr (take (nat i) xs @ drop (Suc (nat i)) xs)
      else if i < 0 \<and> - int (length xs) \<le> i
      then Inr (take (nat (int (length xs) + i)) xs @ drop (Suc (nat (int (length xs) + i))) xs)
      else Inl IndexError)"

fun delitem :: "json \<Rightarrow> json \<Rightarrow> exn + json" where
  "delitem (JObj kvs) (JStr k) =
     (if k \<in> set (map fst kvs) then Inr (JObj (filter (\<lambda>kv. fst kv \<noteq> k) kvs))
      else Inl KeyError)"
| "delitem (JObj kvs) (JArr xs) = Inl TypeError"
| "delitem (JObj kvs) (JObj xs) = Inl TypeError"
| "delitem (JObj kvs) e = Inl KeyError"
| "delitem (JArr xs) (JNum i) = map_sum id JArr (delete_at xs i)"
| "delitem (JArr xs) (JBool b) = map_sum id JArr (delete_at xs (if b then 1 else 0))"
| "delitem c e = Inl TypeError"

text \<open>The two \<open>try: del ... except KeyError: pass\<close> statements.\<close>

definition del_pass_KeyError :: "json \<Rightarrow> json \<Rightarrow> exn + json" where
  "del_pass_KeyError c e =
     (case delitem c e of
        Inl x \<Rightarrow> (if x = KeyError then Inr c else Inl x)
      | Inr c' \<Rightarrow> Inr c')"

text \<open>What a \<open>for\<close> statement iterates over: the items of a list, the keys of a
  dict, the characters of a string.\<close>

fun iterate :: "json \<Rightarrow> exn + json list" where
  "iterate (JArr xs) = Inr xs"
| "iterate (JObj kvs) = Inr (map (\<lambda>kv. JStr (fst kv)) kvs)"
| "iterate (JStr s) = Inr (map (\<lambda>c. JStr [c]) s)"
| "iterate v = Inl TypeError"

text \<open>
  The loop over the exclusion list. Its last statement, \<open>del kwargs['exclude']\<close>,
  is inside the loop body and raises \<open>KeyError\<close> when the key is gone; the list
  being iterated stays alive after the first deletion.
\<close>

fun json_eq_loop ::
  "json list \<Rightarrow> json \<Rightarrow> json \<Rightarrow> (string \<rightharpoonup> json) \<Rightarrow> exn + (json \<times> json \<times> (string \<rightharpoonup> json))" where
  "json_eq_loop [] app_data test_data kwargs = Inr (app_data, test_data, kwargs)"
| "json_eq_loop (e # es) app_data test_data kwargs =
     (case del_pass_KeyError app_data e of
        Inl x \<Rightarrow> Inl x
      | Inr app_data' \<Rightarrow>
          (case del_pass_KeyError test_data e of
             Inl x \<Rightarrow> Inl x
           | Inr test_data' \<Rightarrow>
               (case kwargs ''exclude'' of
                  None \<Rightarrow> Inl KeyError
                | Some v \<Rightarrow> json_eq_loop es app_data' test_data' (kwargs(''exclude'' := None)))))"

text \<open>\<open>json.loads\<close> is a parameter; it raises \<open>ValueError\<close> on a malformed document.\<close>

definition loads_if_string :: "(string \<Rightarrow> json option) \<Rightarrow> json \<Rightarrow> exn + json" where
  "loads_if_string loads d =
     (case d of
        JStr s \<Rightarrow> (case loads s of None \<Rightarrow> Inl ValueError | Some v \<Rightarrow> Inr v)
      | _ \<Rightarrow> Inr d)"

definition operator_json_eq ::
  "(string \<Rightarrow> json option) \<Rightarrow> (json \<Rightarrow> json \<Rightarrow> dd_exn + 'd list) option \<Rightarrow>
   json \<Rightarrow> json \<Rightarrow> (string \<rightharpoonup> json) \<Rightarrow> exn + 'd op_result" where
  "operator_json_eq loads DeepDiff app_data test_data kwargs =
     (case loads_if_string loads app_data of
        Inl x \<Rightarrow> Inl x
      | Inr app_data1 \<Rightarrow>
     (case loads_if_string loads test_data of
        Inl x \<Rightarrow> Inl x
      | Inr test_data1 \<Rightarrow>
     (case iterate (case kwargs ''exclude'' of None \<Rightarrow> JArr [] | Some v \<Rightarrow> v) of
        Inl x \<Rightarrow> Inl x
      | Inr es \<Rightarrow>
     (case json_eq_loop es app_data1 test_data1 kwargs of
        Inl x \<Rightarrow> Inl x
      | Inr (app_data2, test_data2, kwargs2) \<Rightarrow>
          operator_deep_diff DeepDiff app_data2 test_data2))))"

subsection \<open>\<open>operator_regex_match\<close>\<close>

text \<open>
  The module \<open>re\<close> belongs to the Python library. Compiling a pattern is a
  parameter (\<open>None\<close> when the pattern is malformed and \<open>re.error\<close> is raised); a
  compiled pattern is a regular expression, and the two ways of applying one are
  modelled from the library's documentation: \<open>re.match\<close> returns a match when
  zero or more characters at the beginning of the string match the pattern,
  \<open>re.search\<close> scans through the string for the first location where the pattern
  matches.
\<close>

datatype rexp =
    Empty | Eps | Atom char | Dot | Alt rexp rexp | Seq rexp rexp | Star rexp

fun nullable :: "rexp \<Rightarrow> bool" where
  "nullable Empty = False"
| "nullable Eps = True"
| "nullable (Atom c) = False"
| "nullable Dot = False"
| "nullable (Alt r s) = (nullable r \<or> nullable s)"
| "nullable (Seq r s) = (nullable r \<and> nullable s)"
| "nullable (Star r) = True"

fun deriv :: "char \<Rightarrow> rexp \<Rightarrow> rexp" where
  "deriv c Empty = Empty"
| "deriv c Eps = Empty"
| "deriv c (Atom d) = (if c = d then Eps else Empty)"
| "deriv c Dot = (if c = CHR 0x0A then Empty else Eps)"
| "deriv c (Alt r s) = Alt (deriv c r) (deriv c s)"
| "deriv c (Seq r s) =
     (if nullable r then Alt (Seq (deriv c r) s) (deriv c s) else Seq (deriv c r) s)"
| "deriv c (Star r) = Seq (deriv c r) (Star r)"

text \<open>\<open>re.match\<close>: does the pattern match at the beginning of the string?\<close>

fun re_match :: "rexp \<Rightarrow> string \<Rightarrow> bool" where
  "re_match r [] = nullable r"
| "re_match r (c # cs) = (nullable r \<or> re_match (deriv c r) cs)"

text \<open>\<open>re.search\<close>: does the pattern match at some position of the string?\<close>

fun re_search :: "rexp \<Rightarrow> string \<Rightarrow> bool" where
  "re_search r [] = nullable r"
| "re_search r (c # cs) = (re_match r (c # cs) \<or> re_search r cs)"

text \<open>The strings a regular expression matches in full.\<close>

inductive matches :: "rexp \<Rightarrow> string \<Rightarrow> bool" where
  m_eps: "matches Eps []"
| m_atom: "matches (Atom c) [c]"
| m_dot: "c \<noteq> CHR 0x0A \<Longrightarrow> matches Dot [c]"
| m_alt1: "matches r w \<Longrightarrow> matches (Alt r s) w"
| m_alt2: "matches s w \<Longrightarrow> matches (Alt r s) w"
| m_seq: "matches r u \<Longrightarrow> matches s v \<Longrightarrow> matches (Seq r s) (u @ v)"
| m_star0: "matches (Star r) []"
| m_star1: "matches r u \<Longrightarrow> matches (Star r) v \<Longrightarrow> matches (Star r) (u @ v)"




section \<open>Validation against ThreatConnect\<close>

subsection \<open>\<open>ThreatConnect.tc_entities\<close>\<close>

text \<open>
  \<open>tc_entity\<close> fetches the entity from the platform and compares it; it is a
  parameter, and may raise. \<open>files\<close> is \<open>None\<close> by default, and \<open>if files:\<close>
  is false for \<open>None\<close> and for an empty list. The method returns the list of the
  results, or, on a length mismatch, a dict, written here as the JSON object it is.
\<close>

datatype entities_result = Results "bool list" | Dict json

definition length_error :: string where
  "length_error =
     ''LengthError: Length of files provided does not match length of entities provided.''"

fun truth_of_files :: "'f list option \<Rightarrow> bool" where
  "truth_of_files None = False"
| "truth_of_files (Some fs) = (fs \<noteq> [])"

fun tc_entities_loop ::
  "('e \<Rightarrow> 'o \<Rightarrow> 'f option \<Rightarrow> exn + bool) \<Rightarrow> 'o \<Rightarrow> 'f list option \<Rightarrow>
   nat \<Rightarrow> 'e list \<Rightarrow> bool list \<Rightarrow> exn + bool list" where
  "tc_entities_loop tc_entity owner files index [] results = Inr results"
| "tc_entities_loop tc_entity owner files index (entity # rest) results =
     (case (if truth_of_files files
            then (if index < length (the files)
                  then (case tc_entity entity owner (Some (the files ! index)) of
                          Inl x \<Rightarrow> Inl x
                        | Inr r \<Rightarrow> Inr (results @ [r]))
                  else Inl IndexError)
            else Inr results) of
        Inl x \<Rightarrow> Inl x
      | Inr results1 \<Rightarrow>
          (case tc_entity entity owner None of
             Inl x \<Rightarrow> Inl x
           | Inr r \<Rightarrow> tc_entities_loop tc_entity owner files (index + 1) rest (results1 @ [r])))"

definition tc_entities ::
  "('e \<Rightarrow> 'o \<Rightarrow> 'f option \<Rightarrow> exn + bool) \<Rightarrow> 'e list \<Rightarrow> 'o \<Rightarrow> 'f list option \<Rightarrow>
   exn + entities_result" where
  "tc_entities tc_entity entities owner files =
     (if truth_of_files files \<and> \<not> length entities = length (the files)
      then Inr (Dict (JObj [(''valid'', JBool True), (''errors'', JArr [JStr length_error])]))
      else map_sum id Results (tc_entities_loop tc_entity owner files 0 entities []))"

subsection \<open>\<open>compare_lists\<close> and \<open>compare_dicts\<close>\<close>

text \<open>
  Both methods remove entries from \<open>actual\<close> in place, so the two arguments are
  addresses in a store of lists (of dicts), and the store is returned with the
  verdict. A \<open>for\<close> loop over a list reads the list at a running index, also when
  the body shortens this very list.
\<close>

type_synonym addr = nat

function compare_lists_loop ::
  "(addr \<Rightarrow> 'a list) \<Rightarrow> addr \<Rightarrow> addr \<Rightarrow> nat \<Rightarrow> bool \<Rightarrow> (addr \<Rightarrow> 'a list) \<times> bool" where
  "compare_lists_loop h expected actual i valid =
     (if i < length (h expected)
      then (let item = h expected ! i
            in if item \<in> set (h actual)
               then compare_lists_loop (h(actual := remove1 item (h actual)))
                      expected actual (i + 1) valid
               else compare_lists_loop h expected actual (i + 1) False)
      else (h, valid))"
  by pat_completeness auto
termination
  by (relation "measure (\<lambda>(h, expected, actual, i, valid). length (h expected) - i)")
     (auto simp: length_remove1)

definition compare_lists ::
  "(addr \<Rightarrow> 'a list) \<Rightarrow> addr \<Rightarrow> addr \<Rightarrow> (addr \<Rightarrow> 'a list) \<times> bool" where
  "compare_lists h expected actual =
     (case compare_lists_loop h expected actual 0 True of
        (h1, valid) \<Rightarrow> (h1, if h1 actual \<noteq> [] then False else valid))"

text \<open>
  A dict is the list of its items in insertion order. The iterator of a dict
  remembers the size the dict had when the loop started and raises
  \<open>RuntimeError\<close> at the next step once the size has changed. \<open>str\<close> is a
  parameter; it is applied to what \<open>expected.get(item)\<close> returns.
\<close>

fun compare_dicts_loop ::
  "('v option \<Rightarrow> 'v) \<Rightarrow> (addr \<Rightarrow> ('k \<times> 'v) list) \<Rightarrow> addr \<Rightarrow> addr \<Rightarrow> nat \<Rightarrow> 'k list \<Rightarrow>
   bool \<Rightarrow> exn + ((addr \<Rightarrow> ('k \<times> 'v) list) \<times> bool)" where
  "compare_dicts_loop str h expected actual used [] valid =
     (if length (h expected) \<noteq> used then Inl RuntimeError else Inr (h, valid))"
| "compare_dicts_loop str h expected actual used (item # rest) valid =
     (if length (h expected) \<noteq> used then Inl RuntimeError
      else if item \<in> set (map fst (h actual))
      then (let valid1 = (if Some (str (map_of (h expected) item)) \<noteq> map_of (h actual) item
                          then False else valid)
            in compare_dicts_loop str (h(actual := filter (\<lambda>kv. fst kv \<noteq> item) (h actual)))
                 expected actual used rest valid1)
      else compare_dicts_loop str h expected actual used rest False)"

definition compare_dicts ::
  "('v option \<Rightarrow> 'v) \<Rightarrow> (addr \<Rightarrow> ('k \<times> 'v) list) \<Rightarrow> addr \<Rightarrow> addr \<Rightarrow>
   exn + ((addr \<Rightarrow> ('k \<times> 'v) list) \<times> bool)" where
  "compare_dicts str h expected actual =
     (case compare_dicts_loop str h expected actual (length (h expected))
             (map fst (h expected)) True of
        Inl x \<Rightarrow> Inl x
      | Inr (h1, valid) \<Rightarrow> Inr (h1, if h1 actual \<noteq> [] then False else valid))"

subsection \<open>\<open>_partition_batch_data\<close>\<close>

text \<open>
  \<open>sub_data.get('type')\<close>: \<open>None\<close> when the key is missing; a value that is not
  a dict has no \<open>get\<close>. The type is then used as a dict key, which raises
  \<open>TypeError\<close> for a list or a dict.
\<close>

fun get_type :: "json \<Rightarrow> exn + json" where
  "get_type (JObj kvs) =
     (case map_of kvs ''type'' of
        None \<Rightarrow> Inr JNull
      | Some (JArr xs) \<Rightarrow> Inl TypeError
      | Some (JObj xs) \<Rightarrow> Inl TypeError
      | Some t \<Rightarrow> Inr t)"
| "get_type v = Inl AttributeError"

fun partition_sub ::
  "json list \<Rightarrow> (json \<times> json list) list \<Rightarrow> exn + (json \<times> json list) list" where
  "partition_sub [] partitioned_sub_data = Inr partitioned_sub_data"
| "partition_sub (sub_data # rest) partitioned_sub_data =
     (case get_type sub_data of
        Inl x \<Rightarrow> Inl x
      | Inr t \<Rightarrow>
          (if \<not> t \<in> set (map fst partitioned_sub_data)
           then partition_sub rest (partitioned_sub_data @ [(t, [sub_data])])
           else partition_sub rest
                  (map (\<lambda>(k, v). if k = t then (k, v @ [sub_data]) else (k, v))
                     partitioned_sub_data)))"

fun partition_keys ::
  "(string \<times> json) list \<Rightarrow> exn + (string \<times> (json \<times> json list) list) list" where
  "partition_keys [] = Inr []"
| "partition_keys ((key, v) # rest) =
     (case iterate v of
        Inl x \<Rightarrow> Inl x
      | Inr subs \<Rightarrow>
          (case partition_sub subs [] of
             Inl x \<Rightarrow> Inl x
           | Inr partitioned_sub_data \<Rightarrow>
               (case partition_keys rest of
                  Inl x \<Rightarrow> Inl x
                | Inr partitioned_data \<Rightarrow> Inr ((key, partitioned_sub_data) # partitioned_data))))"

fun partition_batch_data ::
  "json \<Rightarrow> exn + (string \<times> (json \<times> json list) list) list" where
  "partition_batch_data (JObj kvs) = partition_keys kvs"
| "partition_batch_data v = Inl AttributeError"

subsection \<open>Floating point arithmetic\<close>

text \<open>
  In Python 3, which the tests of the repository are written in, \<open>/\<close> between
  numbers, \<open>int * float\<close> and \<open>round\<close> compute in binary64. A number
  is represented by its exact rational value, and every floating point operation
  rounds the exact result to the nearest number with a significand of 53 bits, ties
  to the even significand. Overflow and subnormal numbers are not modelled (the
  values below are counts and percentages), and an integer operand is taken to be
  below \<open>2 ^ 53\<close> in magnitude, so that its conversion to a float is exact.
\<close>

definition round_half_even :: "rat \<Rightarrow> int" where
  "round_half_even x =
     (let f = \<lfloor>x\<rfloor>; d = x - of_int f
      in if d < 1 / 2 then f
         else if 1 / 2 < d then f + 1
         else if even f then f else f + 1)"

text \<open>For \<open>1 \<le> x\<close>, the \<open>e\<close> with \<open>2 ^ e \<le> x < 2 ^ (e + 1)\<close>.\<close>

function halvings :: "rat \<Rightarrow> nat" where
  "halvings x = (if x < 2 then 0 else Suc (halvings (x / 2)))"
  by pat_completeness auto
termination
proof (relation "measure (\<lambda>x. nat \<lfloor>x\<rfloor>)")
  show "wf (measure (\<lambda>x::rat. nat \<lfloor>x\<rfloor>))" by simp
next
  fix x :: rat
  assume "\<not> x < 2"
  then have "x / 2 \<le> x - 1" by simp
  then have "\<lfloor>x / 2\<rfloor> \<le> \<lfloor>x - 1\<rfloor>" by (rule floor_mono)
  moreover have "2 \<le> \<lfloor>x\<rfloor>" using \<open>\<not> x < 2\<close> by (simp add: le_floor_iff)
  ultimately show "(x / 2, x) \<in> measure (\<lambda>x. nat \<lfloor>x\<rfloor>)" by simp
qed

text \<open>For \<open>0 < x < 1\<close>, the \<open>n\<close> with \<open>1 \<le> x * 2 ^ n < 2\<close>.\<close>

function doublings :: "rat \<Rightarrow> nat" where
  "doublings x = (if x \<le> 0 \<or> 1 \<le> x then 0 else Suc (doublings (2 * x)))"
  by pat_completeness auto
termination
proof (relation "measure (\<lambda>x. nat \<lceil>1 / x\<rceil>)")
  show "wf (measure (\<lambda>x::rat. nat \<lceil>1 / x\<rceil>))" by simp
next
  fix x :: rat
  assume "\<not> (x \<le> 0 \<or> 1 \<le> x)"
  then have x: "0 < x" "x < 1" by simp_all
  define y where "y = 1 / x"
  have y: "1 < y" using x by (simp add: y_def)
  have "\<lceil>y / 2\<rceil> < \<lceil>y\<rceil>"
  proof (cases "y \<le> 2")
    case True
    then have "\<lceil>y / 2\<rceil> \<le> 1" by (simp add: ceiling_le_iff)
    moreover have "1 < \<lceil>y\<rceil>" using y by (simp add: less_ceiling_iff)
    ultimately show ?thesis by linarith
  next
    case False
    then have "y / 2 \<le> y - 1" by simp
    then have "\<lceil>y / 2\<rceil> \<le> \<lceil>y - 1\<rceil>" by (rule ceiling_mono)
    moreover have "\<lceil>y - 1\<rceil> = \<lceil>y\<rceil> - 1" by simp
    ultimately show ?thesis by linarith
  qed
  moreover have "0 < \<lceil>y\<rceil>" using y by (simp add: less_ceiling_iff)
  moreover have "1 / (2 * x) = y / 2" by (simp add: y_def)
  ultimately have "nat \<lceil>1 / (2 * x)\<rceil> < nat \<lceil>1 / x\<rceil>"
    unfolding y_def[symmetric] by (simp only: zless_nat_conj)
  then show "(2 * x, x) \<in> measure (\<lambda>x. nat \<lceil>1 / x\<rceil>)" by simp
qed

declare halvings.simps [simp del] doublings.simps [simp del]

definition fl_pos :: "rat \<Rightarrow> rat" where
  "fl_pos x =
     (if 1 \<le> x
      then (let e = halvings x
            in if e \<le> 52
               then of_int (round_half_even (x * 2 ^ (52 - e))) / 2 ^ (52 - e)
               else of_int (round_half_even (x / 2 ^ (e - 52))) * 2 ^ (e - 52))
      else (let n = doublings x
            in of_int (round_half_even (x * 2 ^ (52 + n))) / 2 ^ (52 + n)))"

definition fl :: "rat \<Rightarrow> rat" where
  "fl x = (if x = 0 then 0 else if 0 < x then fl_pos x else - fl_pos (- x))"

text \<open>\<open>a / b\<close>, \<open>a * b\<close> with a float operand, and \<open>round(x, 2)\<close> of a float, which
  rounds the exact value of \<open>x\<close> to two decimals, ties to even, and returns the
  float nearest to that decimal.\<close>

definition truediv :: "rat \<Rightarrow> rat \<Rightarrow> exn + rat" where
  "truediv a b = (if b = 0 then Inl ZeroDivisionError else Inr (fl (a / b)))"

definition fmul :: "rat \<Rightarrow> rat \<Rightarrow> rat" where
  "fmul a b = fl (a * b)"

definition round2 :: "rat \<Rightarrow> rat" where
  "round2 x = fl (of_int (round_half_even (x * 100)) / 100)"

subsection \<open>\<open>_convert_to_percent\<close>\<close>

text \<open>\<open>batch_submit_totals\<close> maps a top-level key to a dict from entity type to
  count; the two nested loops add all the counts up.\<close>

definition total_of :: "('k \<times> ('s \<times> int) list) list \<Rightarrow> int" where
  "total_of batch_submit_totals =
     fold (\<lambda>(key, counts) total. fold (\<lambda>(sub_key, n) total. total + n) counts total)
       batch_submit_totals 0"

definition convert_to_percent ::
  "int \<Rightarrow> ('k \<times> ('s \<times> int) list) list \<Rightarrow> exn + rat" where
  "convert_to_percent validation_count batch_submit_totals =
     (let total = total_of batch_submit_totals
      in if validation_count > total then Inr 100
         else (case truediv (of_int validation_count) (of_int total) of
                 Inl x \<Rightarrow> Inl x
               | Inr q \<Rightarrow> Inr (round2 (fmul q 100))))"

subsection \<open>\<open>random.sample\<close>\<close>

text \<open>
  The sampling function of the Python library, in its variant with a pool: it
  rejects a size that is negative or larger than the population, then draws \<open>k\<close>
  times a position \<open>j\<close> of the pool, takes the item there and moves the last item
  of the pool into the vacancy. The source of randomness is a parameter
  \<open>randbelow\<close>, with the state of the generator passed along; the library's
  \<open>randbelow(n)\<close> is below \<open>n\<close>, which the model enforces.
\<close>

fun sample_pool ::
  "('g \<Rightarrow> nat \<Rightarrow> nat \<times> 'g) \<Rightarrow> 'a list \<Rightarrow> nat \<Rightarrow> 'g \<Rightarrow> 'a list \<times> 'g" where
  "sample_pool randbelow pool 0 g = ([], g)"
| "sample_pool randbelow pool (Suc k) g =
     (case randbelow g (length pool) of
        (j0, g1) \<Rightarrow>
          (let j = j0 mod length pool
           in case sample_pool randbelow (butlast (pool[j := last pool])) k g1 of
                (result, g2) \<Rightarrow> (pool ! j # result, g2)))"

definition random_sample ::
  "('g \<Rightarrow> nat \<Rightarrow> nat \<times> 'g) \<Rightarrow> 'a list \<Rightarrow> int \<Rightarrow> 'g \<Rightarrow> exn + ('a list \<times> 'g)" where
  "random_sample randbelow population k g =
     (if \<not> (0 \<le> k \<and> k \<le> int (length population)) then Inl ValueError
      else Inr (sample_pool randbelow population (nat k) g))"

subsection \<open>\<open>ThreatConnect.batch\<close>\<close>

text \<open>\<open>math.ceil(len(sub_partition) * (validation_percent / 100))\<close>\<close>

definition sample_size :: "rat \<Rightarrow> nat \<Rightarrow> int" where
  "sample_size validation_percent n = \<lceil>fmul (of_nat n) (fl (validation_percent / 100))\<rceil>"

text \<open>The sub-partitions in the order of the two nested loops.\<close>

definition sub_partitions ::
  "(string \<times> (json \<times> json list) list) list \<Rightarrow> json list list" where
  "sub_partitions validation_data = concat (map (\<lambda>(key, parts). map snd parts) validation_data)"

fun sample_partitions ::
  "('g \<Rightarrow> nat \<Rightarrow> nat \<times> 'g) \<Rightarrow> rat \<Rightarrow> json list list \<Rightarrow> 'g \<Rightarrow> exn + (json list \<times> 'g)" where
  "sample_partitions randbelow validation_percent [] g = Inr ([], g)"
| "sample_partitions randbelow validation_percent (sub_partition # rest) g =
     (case random_sample randbelow sub_partition
             (sample_size validation_percent (length sub_partition)) g of
        Inl x \<Rightarrow> Inl x
      | Inr (s, g1) \<Rightarrow>
          (case sample_partitions randbelow validation_percent rest g1 of
             Inl x \<Rightarrow> Inl x
           | Inr (ss, g2) \<Rightarrow> Inr (s @ ss, g2)))"

text \<open>The body of the loop over the batch files, from the loaded \<open>data\<close> of one
  file to the assertion. Iterating over the dict that \<open>tc_entities\<close> may return
  yields its keys, which are true.\<close>

fun all_passed :: "entities_result \<Rightarrow> bool" where
  "all_passed (Results rs) = list_all (\<lambda>result. result) rs"
| "all_passed (Dict d) = True"

definition batch_file ::
  "('g \<Rightarrow> nat \<Rightarrow> nat \<times> 'g) \<Rightarrow> (json \<Rightarrow> 'o \<Rightarrow> 'f option \<Rightarrow> exn + bool) \<Rightarrow> 'o \<Rightarrow> rat \<Rightarrow>
   json \<Rightarrow> 'g \<Rightarrow> exn + 'g" where
  "batch_file randbelow tc_entity owner validation_percent data g =
     (case partition_batch_data data of
        Inl x \<Rightarrow> Inl x
      | Inr validation_data \<Rightarrow>
     (case sample_partitions randbelow validation_percent (sub_partitions validation_data) g of
        Inl x \<Rightarrow> Inl x
      | Inr (sample_validation_data, g1) \<Rightarrow>
     (case tc_entities tc_entity sample_validation_data owner None of
        Inl x \<Rightarrow> Inl x
      | Inr results \<Rightarrow> (if all_passed results then Inr g1 else Inl AssertionError))))"

text \<open>
  The whole method: the percentage comes from the criteria (\<open>percent\<close>, 100 when
  absent) unless a count that is true (neither \<open>None\<close> nor 0) is given. The totals
  that \<open>_get_batch_submit_totals\<close> reads from the files, and the loaded contents
  of the files, are arguments.
\<close>

fun batch_files ::
  "('g \<Rightarrow> nat \<Rightarrow> nat \<times> 'g) \<Rightarrow> (json \<Rightarrow> 'o \<Rightarrow> 'f option \<Rightarrow> exn + bool) \<Rightarrow> 'o \<Rightarrow> rat \<Rightarrow>
   json list \<Rightarrow> 'g \<Rightarrow> exn + 'g" where
  "batch_files randbelow tc_entity owner validation_percent [] g = Inr g"
| "batch_files randbelow tc_entity owner validation_percent (data # rest) g =
     (case batch_file randbelow tc_entity owner validation_percent data g of
        Inl x \<Rightarrow> Inl x
      | Inr g1 \<Rightarrow> batch_files randbelow tc_entity owner validation_percent rest g1)"

definition batch ::
  "('g \<Rightarrow> nat \<Rightarrow> nat \<times> 'g) \<Rightarrow> (json \<Rightarrow> 'o \<Rightarrow> 'f option \<Rightarrow> exn + bool) \<Rightarrow> 'o \<Rightarrow>
   rat option \<Rightarrow> int option \<Rightarrow> ('k \<times> ('s \<times> int) list) list \<Rightarrow> json list \<Rightarrow> 'g \<Rightarrow> exn + 'g" where
  "batch randbelow tc_entity owner criteria_percent criteria_count batch_submit_totals files_data g =
     (let validation_percent = (case criteria_percent of None \<Rightarrow> 100 | Some p \<Rightarrow> p)
      in case (case criteria_count of
                 None \<Rightarrow> Inr validation_percent
               | Some validation_count \<Rightarrow>
                   (if validation_count \<noteq> 0
                    then convert_to_percent validation_count batch_submit_totals
                    else Inr validation_percent)) of
           Inl x \<Rightarrow> Inl x
         | Inr p \<Rightarrow> batch_files randbelow tc_entity owner p files_data g)"

section \<open>Playbook output\<close>

text \<open>
  The playbook module is known through its tests
  (\<open>tests/playbooks/test_playbook.py\<close>) and through the specification; the output
  accumulator and the store client are modelled from the specification.
\<close>











section \<open>Data for the examples\<close>

text \<open>
  The lines that \<open>difflib.ndiff\<close> yields for two strings that are equal, or of
  which one is empty: a character of both strings comes with the prefix of an
  unchanged line, a character of the first string alone with \<open>-\<close>, a character of
  the second alone with \<open>+\<close>. (For other pairs of strings the library interleaves
  the lines; the examples do not use such pairs.)
\<close>

definition ndiff_example :: "string \<Rightarrow> string \<Rightarrow> diff_gen" where
  "ndiff_example a b =
     \<lparr>yielded = (if a = b then map (\<lambda>c. [CHR '' '', CHR '' '', c]) a
                 else map (\<lambda>c. [CHR ''-'', CHR '' '', c]) a @ map (\<lambda>c. [CHR ''+'', CHR '' '', c]) b),
      raised = None\<rparr>"


text \<open>A store in which every address holds the empty list (the empty dict).\<close>

definition empty_store :: "addr \<Rightarrow> 'a list" where
  "empty_store a = []"

text \<open>A source of randomness that always answers 0, with no state.\<close>

definition randbelow_zero :: "unit \<Rightarrow> nat \<Rightarrow> nat \<times> unit" where
  "randbelow_zero g n = (0, g)"


text \<open>\<open>str\<close> of a string, which is the string itself, or of \<open>None\<close>.\<close>

definition str_example :: "string option \<Rightarrow> string" where
  "str_example v = (case v of None \<Rightarrow> ''None'' | Some s \<Rightarrow> s)"

text \<open>A batch file with two addresses and a host under \<open>indicator\<close> and an incident
  under \<open>group\<close>, and its partitions.\<close>

definition address1 :: json where
  "address1 = JObj [(''type'', JStr ''Address''), (''summary'', JStr ''1.1.1.1'')]"

definition address2 :: json where
  "address2 = JObj [(''type'', JStr ''Address''), (''summary'', JStr ''2.2.2.2'')]"






section \<open>Properties\<close>

subsection \<open>Comparison operators\<close>

lemma relational_results:
  "fst (operator_ge a b) = (a \<noteq> b)" "fst (operator_gt a b) = (a \<noteq> b)"
  "fst (operator_le a b) = (a \<noteq> b)" "fst (operator_lt a b) = (a \<noteq> b)"
  by (simp_all add: operator_ge_def operator_gt_def operator_le_def operator_lt_def)

text \<open>
  C1. The tokens \<open>lt\<close>/\<open><\<close>, \<open>le\<close>/\<open><=\<close>, \<open>gt\<close>/\<open>>\<close> and \<open>ge\<close>/\<open>>=\<close> are
  dispatched to \<open>operator_lt\<close>, \<open>operator_le\<close>, \<open>operator_gt\<close> and
  \<open>operator_ge\<close>, and each of the four computes \<open>operator.ne\<close>: on the integers
  1 and 2 \<open>ge\<close> and \<open>gt\<close> pass although 1 is less than 2, \<open>le\<close> and \<open>lt\<close> pass
  on 2 and 1, and \<open>ge\<close> and \<open>le\<close> fail on 2 and 2. The docstrings of the four
  methods promise the order comparisons.
\<close>

theorem relational_tokens_test_inequality:
  "get_operator ''ge'' = Some Operator_ge \<and> get_operator ''>='' = Some Operator_ge
   \<and> get_operator ''gt'' = Some Operator_gt \<and> get_operator ''>'' = Some Operator_gt
   \<and> get_operator ''le'' = Some Operator_le \<and> get_operator ''<='' = Some Operator_le
   \<and> get_operator ''lt'' = Some Operator_lt \<and> get_operator ''<'' = Some Operator_lt
   \<and> call_relational Operator_ge (1::int) 2 = Some (True, '''')
   \<and> call_relational Operator_ge (2::int) 2
       = Some (False, ''App data is not greater than or equal to test data'')
   \<and> call_relational Operator_gt (1::int) 2 = Some (True, '''')
   \<and> call_relational Operator_le (2::int) 1 = Some (True, '''')
   \<and> call_relational Operator_le (2::int) 2
       = Some (False, ''App data is not less than or equal to test data'')
   \<and> call_relational Operator_lt (2::int) 1 = Some (True, '''')"
  by (simp add: get_operator_def operators_def operator_ge_def operator_gt_def
      operator_le_def operator_lt_def)

text \<open>
  C9. \<open>details\<close> returns the empty string whenever \<open>app_data\<close> is \<open>None\<close>, or
  \<open>test_data\<close> is \<open>None\<close>, or the operator token is neither \<open>eq\<close> nor \<open>ne\<close>;
  so \<open>operator_eq\<close> and \<open>operator_ne\<close> against \<open>None\<close> return no diff details.
\<close>

theorem details_empty_without_both_values_or_eq_ne:
  "(app_data = None \<or> test_data = None \<or> op \<notin> {''eq'', ''ne''}
      \<longrightarrow> details self ndiff app_data test_data op = Inr '''')
   \<and> operator_eq self ndiff None test_data = Inr (None = test_data, '''')
   \<and> operator_eq self ndiff app_data None = Inr (app_data = None, '''')
   \<and> operator_ne self ndiff None test_data = Inr (None \<noteq> test_data, '''')
   \<and> operator_ne self ndiff app_data None = Inr (app_data \<noteq> None, '''')"
  by (auto simp: details_def operator_eq_def operator_ne_def split: option.splits)

theorem details_empty_without_both_values_or_eq_ne_witness:
  "(Some ''ab'' = None \<or> (None :: string option) = None \<or> ''eq'' \<notin> {''eq'', ''ne''})
   \<and> details Validator_init ndiff_example (Some ''ab'') None ''eq'' = Inr ''''
   \<and> (Some ''ab'' = None \<or> Some ''cd'' = None \<or> ''dd'' \<notin> {''eq'', ''ne''})
   \<and> details Validator_init ndiff_example (Some ''ab'') (Some ''cd'') ''dd'' = Inr ''''"
  using details_empty_without_both_values_or_eq_ne
          [of "Some ''ab''" None "''eq''" Validator_init ndiff_example]
        details_empty_without_both_values_or_eq_ne
          [of "Some ''ab''" "Some ''cd''" "''dd''" Validator_init ndiff_example]
  by simp

subsection \<open>\<open>operator_json_eq\<close>\<close>

text \<open>With two or more keys to exclude the loop never ends normally: either a
  deletion raises, or the second \<open>del kwargs['exclude']\<close> does.\<close>

lemma json_eq_loop_two_or_more:
  "\<exists>x. json_eq_loop (e1 # e2 # es) app_data test_data kwargs = Inl x"
  by (auto split: sum.splits option.splits)

text \<open>With one key the key is removed from both sides and the rest is compared.\<close>

lemma json_eq_one_key:
  "operator_json_eq loads DeepDiff
     (JObj [(''a'', JNum 1), (''c'', JNum 3)])
     (JObj [(''a'', JNum 9), (''c'', JNum 3)])
     [''exclude'' \<mapsto> JArr [JStr ''a'']]
   = operator_deep_diff DeepDiff (JObj [(''c'', JNum 3)]) (JObj [(''c'', JNum 3)])"
  by (simp add: operator_json_eq_def loads_if_string_def del_pass_KeyError_def)

text \<open>
  C4. With the exclusion list \<open>['a', 'b']\<close> and two dicts that differ at \<open>a\<close> and
  \<open>b\<close> only, \<open>operator_json_eq\<close> raises \<open>KeyError\<close> instead of returning the
  deep-diff result of the remaining data: \<open>del kwargs['exclude']\<close> stands inside
  the loop and fails in the second iteration.
\<close>

theorem json_eq_two_excluded_keys_raise:
  "operator_json_eq loads DeepDiff
     (JObj [(''a'', JNum 1), (''b'', JNum 2), (''c'', JNum 3)])
     (JObj [(''a'', JNum 9), (''b'', JNum 8), (''c'', JNum 3)])
     [''exclude'' \<mapsto> JArr [JStr ''a'', JStr ''b'']]
   = Inl KeyError"
  by (simp add: operator_json_eq_def loads_if_string_def del_pass_KeyError_def)

subsection \<open>\<open>tc_entities\<close>\<close>

text \<open>Whenever files are given and their number differs from the number of
  entities, the result is the dict marked valid; an empty list of files counts as no
  files, and the entities are validated without files.\<close>

lemma tc_entities_length_mismatch:
  "files \<noteq> [] \<Longrightarrow> length entities \<noteq> length files
   \<Longrightarrow> tc_entities tc_entity entities owner (Some files)
       = Inr (Dict (JObj [(''valid'', JBool True), (''errors'', JArr [JStr length_error])]))"
  by (simp add: tc_entities_def)

lemma tc_entities_empty_files:
  "tc_entities tc_entity [e1] owner (Some [])
     = map_sum id (\<lambda>r. Results [r]) (tc_entity e1 owner None)"
  by (simp add: tc_entities_def split: sum.splits)

text \<open>
  C2. Given one entity and two files, \<open>tc_entities\<close> does not raise and calls
  \<open>tc_entity\<close> for no entity; it returns the dict that holds the \<open>LengthError\<close>
  message, with \<open>valid\<close> set to \<open>True\<close>, and a caller that looks at the results
  the way \<open>batch\<close> does finds no failure in it.
\<close>

theorem tc_entities_length_mismatch_valid_true:
  "tc_entities tc_entity [e1] owner (Some [f1, f2])
     = Inr (Dict (JObj [(''valid'', JBool True), (''errors'', JArr [JStr length_error])]))
   \<and> all_passed (Dict (JObj [(''valid'', JBool True), (''errors'', JArr [JStr length_error])]))"
  by (simp add: tc_entities_def)

subsection \<open>Playbook output\<close>


subsection \<open>\<open>details\<close> and \<open>operator_eq\<close>\<close>

lemma details_loop_unchanged:
  "\<forall>l\<in>set ls. take 1 l = '' '' \<Longrightarrow> r \<in> {None, Some TypeError, Some KeyError}
   \<Longrightarrow> details_loop self i n d ls r = Inr d"
proof (induction ls arbitrary: i)
  case Nil
  then show ?case by auto
next
  case (Cons l ls)
  then obtain c cs where "l = c # cs" "c = CHR '' ''" by (cases l) auto
  with Cons show ?case by simp
qed

lemma details_loop_extends:
  "details_loop self i n d ls r = Inr d' \<Longrightarrow> \<exists>s. d' = d @ s"
proof (induction self i n d ls r rule: details_loop.induct)
  case (4 self i diff_count details c cs rest r)
  then show ?case
    by (auto simp: Let_def split: if_splits)
qed (auto split: if_splits)

lemma entries_nonempty: "missing_entry i \<noteq> []" "extra_entry i \<noteq> []" "max_entry \<noteq> []"
  by (simp_all add: missing_entry_def extra_entry_def max_entry_def)

lemma details_loop_returns:
  "\<forall>l\<in>set ls. l \<noteq> [] \<Longrightarrow> r \<in> {None, Some TypeError, Some KeyError}
   \<Longrightarrow> \<exists>d'. details_loop self i n d ls r = Inr d'"
proof (induction ls arbitrary: i n d)
  case Nil
  then show ?case by auto
next
  case (Cons l ls)
  then obtain c cs where l: "l = c # cs" by (cases l) auto
  from Cons show ?case by (simp add: l Let_def)
qed

lemma details_loop_reports:
  "\<forall>l\<in>set ls. l \<noteq> [] \<Longrightarrow> \<exists>l\<in>set ls. take 1 l = ''-'' \<or> take 1 l = ''+''
   \<Longrightarrow> r \<in> {None, Some TypeError, Some KeyError}
   \<Longrightarrow> \<exists>d'. details_loop self i n d ls r = Inr d' \<and> d' \<noteq> []"
proof (induction ls arbitrary: i n d)
  case Nil
  then show ?case by simp
next
  case (Cons l ls)
  then obtain c cs where l: "l = c # cs" by (cases l) auto
  have all: "\<forall>l\<in>set ls. l \<noteq> []" using Cons.prems by simp
  show ?case
  proof (cases "int n > max_diff self \<and> c \<noteq> CHR '' ''")
    case True
    then show ?thesis by (simp add: l entries_nonempty Let_def)
  next
    case no_break: False
    show ?thesis
    proof (cases "c = CHR ''-'' \<or> c = CHR ''+''")
      case True
      define d1 where "d1 = (if c = CHR ''-'' then d @ missing_entry i else d @ extra_entry i)"
      have d1: "d1 \<noteq> []" by (simp add: d1_def entries_nonempty)
      have eq: "details_loop self i n d (l # ls) r = details_loop self (i + 1) (n + 1) d1 ls r"
        using no_break True by (auto simp: l d1_def)
      obtain d' where d': "details_loop self (i + 1) (n + 1) d1 ls r = Inr d'"
        using details_loop_returns[OF all Cons.prems(3)] by blast
      with details_loop_extends[OF d'] d1 eq show ?thesis by auto
    next
      case False
      with Cons.prems l have ex: "\<exists>l\<in>set ls. take 1 l = ''-'' \<or> take 1 l = ''+''" by auto
      from False no_break show ?thesis
        using Cons.IH[OF all ex Cons.prems(3)] by (auto simp: l)
    qed
  qed
qed

text \<open>
  C3 as the code has it. \<open>operator_eq(a, a)\<close> passes with empty details, when
  \<open>ndiff\<close> yields unchanged lines only for the two equal arguments (or raises one
  of the two swallowed exceptions), and for \<open>None\<close>. \<open>operator_eq\<close> on two
  different values fails whenever it returns; its details are empty when one of the
  two is \<open>None\<close>, and not empty when neither is and \<open>ndiff\<close> yields a line
  of the first or of the second argument alone.
\<close>

theorem operator_eq_passes_on_equal_fails_on_different:
  "((\<forall>l\<in>set (yielded (ndiff a a)). take 1 l = '' '')
      \<and> raised (ndiff a a) \<in> {None, Some TypeError, Some KeyError}
      \<longrightarrow> operator_eq self ndiff (Some a) (Some a) = Inr (True, ''''))
   \<and> operator_eq self ndiff None None = Inr (True, '''')
   \<and> (x \<noteq> y \<and> (x = None \<or> y = None) \<longrightarrow> operator_eq self ndiff x y = Inr (False, ''''))
   \<and> (a \<noteq> b \<and> (\<forall>l\<in>set (yielded (ndiff a b)). l \<noteq> [])
      \<and> (\<exists>l\<in>set (yielded (ndiff a b)). take 1 l = ''-'' \<or> take 1 l = ''+'')
      \<and> raised (ndiff a b) \<in> {None, Some TypeError, Some KeyError}
      \<longrightarrow> (\<exists>d. operator_eq self ndiff (Some a) (Some b) = Inr (False, d) \<and> d \<noteq> ''''))
   \<and> (x \<noteq> y \<longrightarrow> (\<forall>p d. operator_eq self ndiff x y = Inr (p, d) \<longrightarrow> \<not> p))"
proof (intro conjI impI)
  assume "(\<forall>l\<in>set (yielded (ndiff a a)). take 1 l = '' '')
      \<and> raised (ndiff a a) \<in> {None, Some TypeError, Some KeyError}"
  then show "operator_eq self ndiff (Some a) (Some a) = Inr (True, '''')"
    using details_loop_unchanged[of "yielded (ndiff a a)" "raised (ndiff a a)" self 0 0 "''''"]
    by (simp add: operator_eq_def details_def)
next
  show "operator_eq self ndiff None None = Inr (True, '''')"
    by (simp add: operator_eq_def details_def)
next
  assume "x \<noteq> y \<and> (x = None \<or> y = None)"
  then show "operator_eq self ndiff x y = Inr (False, '''')"
    by (auto simp: operator_eq_def details_def split: option.splits)
next
  assume h: "a \<noteq> b \<and> (\<forall>l\<in>set (yielded (ndiff a b)). l \<noteq> [])
      \<and> (\<exists>l\<in>set (yielded (ndiff a b)). take 1 l = ''-'' \<or> take 1 l = ''+'')
      \<and> raised (ndiff a b) \<in> {None, Some TypeError, Some KeyError}"
  then obtain d where "details_loop self 0 0 '''' (yielded (ndiff a b)) (raised (ndiff a b)) = Inr d"
      "d \<noteq> []"
    using details_loop_reports[of "yielded (ndiff a b)" "raised (ndiff a b)" self 0 0 "''''"]
    by blast
  with h show "\<exists>d. operator_eq self ndiff (Some a) (Some b) = Inr (False, d) \<and> d \<noteq> ''''"
    by (simp add: operator_eq_def details_def)
next
  assume "x \<noteq> y"
  then show "\<forall>p d. operator_eq self ndiff x y = Inr (p, d) \<longrightarrow> \<not> p"
    by (auto simp: operator_eq_def split: sum.splits)
qed

text \<open>
  C3 as stated fails: \<open>None\<close> and \<open>'x'\<close> differ, and \<open>operator_eq\<close> returns
  a failing result whose details are empty.
\<close>

theorem operator_eq_none_counterexample:
  "(None :: string option) \<noteq> Some ''x''
   \<and> operator_eq Validator_init ndiff_example None (Some ''x'') = Inr (False, '''')"
  by (simp add: operator_eq_def details_def)

text \<open>
  The cap on the reported differences is tested after an entry has been added, with
  \<open>>\<close>, and the counter is incremented after the test: with \<open>max_diff = 10\<close>
  twelve differences are reported before the closing entry.
\<close>

lemma details_reports_twelve:
  "max_diff Validator_init = 10 \<and>
   details Validator_init ndiff_example (Some '''') (Some ''aaaaaaaaaaaa'') ''eq''
   = Inr (extra_entry 0 @ extra_entry 1 @ extra_entry 2 @ extra_entry 3 @ extra_entry 4
        @ extra_entry 5 @ extra_entry 6 @ extra_entry 7 @ extra_entry 8 @ extra_entry 9
        @ extra_entry 10 @ extra_entry 11 @ max_entry)"
  by (simp add: details_def ndiff_example_def Validator_init_def eval_nat_numeral)

theorem operator_eq_passes_on_equal_fails_on_different_witness:
  "yielded (ndiff_example ''ab'' ''ab'') = [''  a'', ''  b'']
   \<and> raised (ndiff_example ''ab'' ''ab'') = None
   \<and> operator_eq Validator_init ndiff_example (Some ''ab'') (Some ''ab'') = Inr (True, '''')
   \<and> operator_eq Validator_init ndiff_example (Some ''ab'') None = Inr (False, '''')
   \<and> yielded (ndiff_example ''ab'' '''') = [''- a'', ''- b'']
   \<and> raised (ndiff_example ''ab'' '''') = None
   \<and> operator_eq Validator_init ndiff_example (Some ''ab'') (Some '''')
       = Inr (False, missing_entry 0 @ missing_entry 1)"
proof -
  have y1: "yielded (ndiff_example ''ab'' ''ab'') = [''  a'', ''  b'']"
    and r1: "raised (ndiff_example ''ab'' ''ab'') = None"
    and y3: "yielded (ndiff_example ''ab'' '''') = [''- a'', ''- b'']"
    and r3: "raised (ndiff_example ''ab'' '''') = None"
    by (simp_all add: ndiff_example_def)
  have h1: "(\<forall>l\<in>set (yielded (ndiff_example ''ab'' ''ab'')). take 1 l = '' '')
      \<and> raised (ndiff_example ''ab'' ''ab'') \<in> {None, Some TypeError, Some KeyError}"
    by (simp add: y1 r1)
  have h2: "Some ''ab'' \<noteq> None \<and> (Some ''ab'' = None \<or> (None :: string option) = None)"
    by simp
  have h3: "''ab'' \<noteq> '''' \<and> (\<forall>l\<in>set (yielded (ndiff_example ''ab'' '''')). l \<noteq> [])
      \<and> (\<exists>l\<in>set (yielded (ndiff_example ''ab'' '''')). take 1 l = ''-'' \<or> take 1 l = ''+'')
      \<and> raised (ndiff_example ''ab'' '''') \<in> {None, Some TypeError, Some KeyError}"
    by (simp add: y3 r3)
  have e: "operator_eq Validator_init ndiff_example (Some ''ab'') (Some '''')
       = Inr (False, missing_entry 0 @ missing_entry 1)"
    by (simp add: operator_eq_def details_def ndiff_example_def Validator_init_def)
  from operator_eq_passes_on_equal_fails_on_different
         [of ndiff_example "''ab''" Validator_init "Some ''ab''" None "''''"]
       h1 h2 h3
  have "operator_eq Validator_init ndiff_example (Some ''ab'') (Some ''ab'') = Inr (True, '''')"
    and "operator_eq Validator_init ndiff_example (Some ''ab'') None = Inr (False, '''')"
    by blast+
  with y1 r1 y3 r3 e show ?thesis by simp
qed

subsection \<open>\<open>operator_regex_match\<close>\<close>

inductive_cases matches_EmptyE: "matches Empty w"
inductive_cases matches_EpsE: "matches Eps w"
inductive_cases matches_AtomE: "matches (Atom c) w"
inductive_cases matches_DotE: "matches Dot w"
inductive_cases matches_AltE: "matches (Alt r s) w"
inductive_cases matches_SeqE: "matches (Seq r s) w"

text \<open>The derivative of a pattern matches the rest of a string exactly when the
  pattern matches the string; so \<open>re_match\<close> finds the matches of a prefix, and
  \<open>re_search\<close> the matches of any part of the string.\<close>

lemma matches_nil_nullable: "matches r w \<Longrightarrow> w = [] \<Longrightarrow> nullable r"
  by (induction rule: matches.induct) auto

lemma nullable_matches_nil: "nullable r \<Longrightarrow> matches r []"
proof (induction r)
  case (Seq r s)
  then have "matches r []" "matches s []" by simp_all
  then have "matches (Seq r s) ([] @ [])" by (rule m_seq)
  then show ?case by simp
qed (auto intro: matches.intros)

lemma matches_nil_iff: "matches r [] \<longleftrightarrow> nullable r"
  using matches_nil_nullable nullable_matches_nil by blast

lemma matches_deriv: "matches r x \<Longrightarrow> x = c # w \<Longrightarrow> matches (deriv c r) w"
proof (induction arbitrary: w rule: matches.induct)
  case (m_seq r u s v)
  show ?case
  proof (cases u)
    case Nil
    with m_seq have "nullable r" "matches (deriv c s) w"
      by (auto simp: matches_nil_iff)
    then show ?thesis by (auto intro: matches.intros)
  next
    case (Cons a u')
    with m_seq have "matches (deriv c r) u'" "w = u' @ v" by auto
    with m_seq(2) have "matches (Seq (deriv c r) s) w" by (auto intro: matches.intros)
    then show ?thesis by (auto intro: matches.intros)
  qed
next
  case (m_star1 r u v)
  show ?case
  proof (cases u)
    case Nil
    with m_star1 show ?thesis by auto
  next
    case (Cons a u')
    with m_star1 have "matches (deriv c r) u'" "w = u' @ v" by auto
    with m_star1(2) show ?thesis by (auto intro: matches.intros)
  qed
qed (auto intro: matches.intros)

lemma deriv_matches: "matches (deriv c r) w \<Longrightarrow> matches r (c # w)"
proof (induction r arbitrary: w)
  case Empty
  then show ?case by (auto elim: matches_EmptyE)
next
  case Eps
  then show ?case by (auto elim: matches_EmptyE)
next
  case (Atom d)
  then show ?case
    by (auto split: if_splits elim!: matches_EmptyE matches_EpsE intro: matches.intros)
next
  case Dot
  then show ?case
    by (auto split: if_splits elim!: matches_EmptyE matches_EpsE intro: matches.intros)
next
  case (Alt r s)
  then show ?case by (auto elim!: matches_AltE intro: matches.intros)
next
  case (Seq r s)
  have left: "matches (Seq r s) (c # w)" if "matches (Seq (deriv c r) s) w"
  proof -
    from that obtain u v where "w = u @ v" "matches (deriv c r) u" "matches s v"
      by (auto elim: matches_SeqE)
    with Seq.IH(1) have "matches r (c # u)" by simp
    with \<open>matches s v\<close> have "matches (Seq r s) ((c # u) @ v)" by (blast intro: m_seq)
    with \<open>w = u @ v\<close> show ?thesis by simp
  qed
  have right: "matches (Seq r s) (c # w)" if "nullable r" "matches (deriv c s) w"
  proof -
    from that have "matches r []" "matches s (c # w)"
      using Seq.IH(2) by (simp_all add: matches_nil_iff)
    then have "matches (Seq r s) ([] @ c # w)" by (rule m_seq)
    then show ?thesis by simp
  qed
  from Seq.prems show ?case
    by (auto split: if_splits elim!: matches_AltE intro: left right)
next
  case (Star r)
  from Star.prems have "matches (Seq (deriv c r) (Star r)) w" by simp
  then obtain u v where "w = u @ v" "matches (deriv c r) u" "matches (Star r) v"
    by (auto elim: matches_SeqE)
  with Star.IH have "matches r (c # u)" by simp
  with \<open>matches (Star r) v\<close> have "matches (Star r) ((c # u) @ v)" by (blast intro: m_star1)
  with \<open>w = u @ v\<close> show ?case by simp
qed


lemma matches_Cons_iff: "matches r (c # w) \<longleftrightarrow> matches (deriv c r) w"
  using matches_deriv deriv_matches by blast

lemma re_match_iff: "re_match r s \<longleftrightarrow> (\<exists>u v. s = u @ v \<and> matches r u)"
proof (induction s arbitrary: r)
  case Nil
  then show ?case by (simp add: matches_nil_iff)
next
  case (Cons c cs)
  have "(\<exists>u v. c # cs = u @ v \<and> matches r u)
        \<longleftrightarrow> matches r [] \<or> (\<exists>u' v. cs = u' @ v \<and> matches r (c # u'))"
    by (auto simp: Cons_eq_append_conv)
  with Cons show ?case by (simp add: matches_nil_iff matches_Cons_iff)
qed

lemma re_search_iff: "re_search r s \<longleftrightarrow> (\<exists>p u v. s = p @ u @ v \<and> matches r u)"
proof (induction s)
  case Nil
  then show ?case by (simp add: matches_nil_iff)
next
  case (Cons c cs)
  have "(\<exists>p u v. c # cs = p @ u @ v \<and> matches r u)
        \<longleftrightarrow> (\<exists>u v. c # cs = u @ v \<and> matches r u) \<or> (\<exists>p u v. cs = p @ u @ v \<and> matches r u)"
    (is "?L \<longleftrightarrow> ?A \<or> ?B")
  proof
    assume ?L
    then obtain p u v where h: "c # cs = p @ u @ v" "matches r u" by blast
    show "?A \<or> ?B"
    proof (cases p)
      case Nil
      with h show ?thesis by auto
    next
      case (Cons a p')
      with h have "cs = p' @ u @ v" by simp
      with h(2) show ?thesis by blast
    qed
  next
    assume "?A \<or> ?B"
    then show ?L
    proof
      assume ?A
      then obtain u v where "c # cs = [] @ u @ v" "matches r u" by auto
      then show ?L by blast
    next
      assume ?B
      then obtain p u v where "c # cs = (c # p) @ u @ v" "matches r u" by auto
      then show ?L by blast
    qed
  qed
  with Cons show ?case using re_match_iff[of r "c # cs"] by simp
qed




subsection \<open>\<open>compare_lists\<close> and \<open>compare_dicts\<close>\<close>







text \<open>When both arguments are the same object, the list is shortened while it is
  iterated and every second item survives; the dict iterator raises.\<close>

lemma compare_lists_same_object:
  "compare_lists (empty_store(0 := [''a'', ''b'', ''c'', ''d''])) 0 0
     = (empty_store(0 := [''b'', ''d'']), False)"
  by (simp add: compare_lists_def)

lemma compare_dicts_same_object:
  "compare_dicts str_example (empty_store(0 := [(''k'', ''x'')])) 0 0 = Inl RuntimeError"
  by (simp add: compare_dicts_def)


subsection \<open>\<open>_convert_to_percent\<close>\<close>










text \<open>Two of three submitted entities are 66.67 percent, the float nearest to it.\<close>

lemma convert_to_percent_two_of_three:
  "convert_to_percent 2 [(''indicator'', [(''Address'', 3)])]
     = Inr (4691484174324859 / 70368744177664)"
  by code_simp


subsection \<open>Partitions and samples of \<open>batch\<close>\<close>




lemma random_sample_ValueError:
  "random_sample randbelow population k g = Inl x \<longleftrightarrow>
     x = ValueError \<and> (k < 0 \<or> int (length population) < k)"
  by (auto simp: random_sample_def)





text \<open>When the size exceeds the partition, \<open>random.sample\<close> raises and so does
  \<open>batch\<close>.\<close>

lemma sample_larger_than_partition_raises:
  "int (length part) < sample_size percent (length part)
   \<Longrightarrow> sample_partitions randbelow percent (part # rest) g = Inl ValueError"
  by (simp add: random_sample_def)



text \<open>A percentage above 100 asks for more entities than the partition has.\<close>

lemma sample_of_150_percent_raises:
  "sample_partitions randbelow_zero 150 [[address1, address2]] () = Inl ValueError"
  by code_simp




end
